theory Spec2Isabelle
  imports Complex_Main "HOL-Library.Log_Nat" "HOL-Library.Sublist"
begin

section \<open>The tables of the ledger database\<close>

text \<open>
  The tool works on three tables of an SQLite database owned by the host application:
  \<open>account\<close>, \<open>category\<close> and \<open>record\<close>. A table is the list of its rows in rowid
  order; only the columns that \<open>cli.py\<close> reads or writes are kept. Timestamps are
  points of a linear order (microseconds, say); a nullable column is an \<open>option\<close>.
  Column names are the source's, prefixed where two tables share a name.
\<close>

type_synonym timestamp = nat

record account =
  acc_id :: int
  acc_name :: string
  beginningBalance :: real
  acc_updatedAt :: timestamp
  acc_deletedAt :: "timestamp option"

record category =
  cat_id :: int
  cat_name :: string
  cat_deletedAt :: "timestamp option"

record record_row =
  rec_id :: int
  createdAt :: timestamp
  updatedAt :: timestamp
  label :: string
  amount :: real
  date :: timestamp
  accountId :: int
  categoryId :: "int option"
  isInProgress :: bool
  isIncome :: bool
  isTransfer :: bool
  transferToAccountId :: "int option"

record db =
  account_tbl :: "account list"
  category_tbl :: "category list"
  record_tbl :: "record_row list"

section \<open>Arithmetic on amounts\<close>








section \<open>Balance calculator\<close>


section \<open>Errors\<close>

text \<open>
  Every \<open>click.ClickException\<close> that the modelled functions raise, by message, and the
  two Python exceptions that a lookup could raise. A failing command returns the error
  and no database: nothing was written.
\<close>

datatype error =
    AmountNotPositive
  | MultipleCategories string "string list"
  | MultipleAccounts string "string list"
  | AccountNotFound string
  | SourceAccountNotFound string
  | DestinationAccountNotFound string
  | CategoryNotFound string
  | SameAccount
  | InvalidDateFormat
  | NoAccountsFound
  | NoFieldToEdit
  | KeyError string
  | NoRowFetched

section \<open>Record resolver\<close>

text \<open>
  SQLite's \<open>LOWER\<close> folds the ASCII letters only. Its \<open>LIKE\<close> reads \<open>%\<close> in the pattern
  as any run of characters and \<open>_\<close> as any one character, compares the other
  characters without regard to ASCII case, and has no escape character unless the
  query gives one (the source's queries give none).
\<close>

definition lower_char :: "char \<Rightarrow> char" where
  "lower_char c =
     (case map_of (zip ''ABCDEFGHIJKLMNOPQRSTUVWXYZ'' ''abcdefghijklmnopqrstuvwxyz'') c of
        Some l \<Rightarrow> l | None \<Rightarrow> c)"

definition lower :: "string \<Rightarrow> string" where
  "lower s = map lower_char s"

fun sql_like :: "string \<Rightarrow> string \<Rightarrow> bool" where
  "sql_like [] s = (s = [])"
| "sql_like (p # ps) [] = (p = CHR ''%'' \<and> sql_like ps [])"
| "sql_like (p # ps) (c # cs) =
     (if p = CHR ''%'' then sql_like ps (c # cs) \<or> sql_like (p # ps) cs
      else if p = CHR ''_'' then sql_like ps cs
      else lower_char p = lower_char c \<and> sql_like ps cs)"

text \<open>
  \<open>find_category\<close> and \<open>find_account\<close>: the first row of the exact query if there is
  one; otherwise the rows of the \<open>LIKE\<close> query with the pattern \<open>f"%{search}%"\<close>.
  The result is \<open>None\<close>, the row \<open>(id, name)\<close>, or the exception.
\<close>

definition find_category :: "db \<Rightarrow> string \<Rightarrow> error + (int \<times> string) option" where
  "find_category conn search =
     (case filter (\<lambda>c. lower (cat_name c) = lower search \<and> cat_deletedAt c = None)
             (category_tbl conn) of
        c # _ \<Rightarrow> Inr (Some (cat_id c, cat_name c))
      | [] \<Rightarrow>
         (case filter (\<lambda>c. sql_like (lower (''%'' @ search @ ''%'')) (lower (cat_name c))
                            \<and> cat_deletedAt c = None) (category_tbl conn) of
            [] \<Rightarrow> Inr None
          | [c] \<Rightarrow> Inr (Some (cat_id c, cat_name c))
          | results \<Rightarrow> Inl (MultipleCategories search (map cat_name results))))"

definition find_account :: "db \<Rightarrow> string \<Rightarrow> error + (int \<times> string) option" where
  "find_account conn search =
     (case filter (\<lambda>a. lower (acc_name a) = lower search \<and> acc_deletedAt a = None)
             (account_tbl conn) of
        a # _ \<Rightarrow> Inr (Some (acc_id a, acc_name a))
      | [] \<Rightarrow>
         (case filter (\<lambda>a. sql_like (lower (''%'' @ search @ ''%'')) (lower (acc_name a))
                            \<and> acc_deletedAt a = None) (account_tbl conn) of
            [] \<Rightarrow> Inr None
          | [a] \<Rightarrow> Inr (Some (acc_id a, acc_name a))
          | results \<Rightarrow> Inl (MultipleAccounts search (map acc_name results))))"

section \<open>Config store\<close>

text \<open>
  The configuration is a Python dict from setting names to JSON values; the values the
  tool itself writes are \<open>null\<close>, booleans and strings. The file at \<open>CONFIG_PATH\<close> is
  absent, unreadable as JSON, or holds the object that \<open>save_config\<close> dumped.
\<close>

datatype jvalue = JNull | JBool bool | JStr string

type_synonym config = "string \<rightharpoonup> jvalue"

datatype config_file = Absent | Malformed | Saved config

definition defaults :: config where
  "defaults = [''default_account'' \<mapsto> JNull, ''default_category'' \<mapsto> JNull,
               ''confirm_undo'' \<mapsto> JBool True, ''show_balance_after_add'' \<mapsto> JBool False]"

definition get_config :: "config_file \<Rightarrow> config" where
  "get_config file = (case file of Saved saved \<Rightarrow> defaults ++ saved | _ \<Rightarrow> defaults)"

definition save_config :: "config \<Rightarrow> config_file" where
  "save_config cfg = Saved cfg"


fun search_of :: "jvalue \<Rightarrow> string option" where
  \<comment> \<open>the name a setting hands to the resolver; \<open>config set\<close> stores a name or \<open>null\<close>
      under \<open>default_account\<close> and \<open>default_category\<close>, and a value that is not a
      non-empty string is read as no name\<close>
  "search_of (JStr s) = (if s \<noteq> [] then Some s else None)"
| "search_of _ = None"

text \<open>
  \<open>get_default_account\<close>: the configured account if the resolver finds it, else the
  first row of \<open>... AND name != 'Outside source' ORDER BY id LIMIT 1\<close>, else the first
  row of \<open>... ORDER BY id LIMIT 1\<close>, else the exception.
\<close>

definition get_default_account :: "config_file \<Rightarrow> db \<Rightarrow> error + (int \<times> string)" where
  "get_default_account file conn =
     (case get_config file ''default_account'' of
        None \<Rightarrow> Inl (KeyError ''default_account'')
      | Some v \<Rightarrow>
         (case (case search_of v of Some s \<Rightarrow> find_account conn s | None \<Rightarrow> Inr None) of
            Inl e \<Rightarrow> Inl e
          | Inr (Some result) \<Rightarrow> Inr result
          | Inr None \<Rightarrow>
             (case sort_key acc_id (filter (\<lambda>a. acc_deletedAt a = None
                       \<and> acc_name a \<noteq> ''Outside source'') (account_tbl conn)) of
                a # _ \<Rightarrow> Inr (acc_id a, acc_name a)
              | [] \<Rightarrow>
                 (case sort_key acc_id (filter (\<lambda>a. acc_deletedAt a = None) (account_tbl conn)) of
                    a # _ \<Rightarrow> Inr (acc_id a, acc_name a)
                  | [] \<Rightarrow> Inl NoAccountsFound))))"

definition get_default_category :: "config_file \<Rightarrow> db \<Rightarrow> error + (int \<times> string) option" where
  "get_default_category file conn =
     (case get_config file ''default_category'' of
        None \<Rightarrow> Inl (KeyError ''default_category'')
      | Some v \<Rightarrow> (case search_of v of Some s \<Rightarrow> find_category conn s | None \<Rightarrow> Inr None))"

section \<open>Commands\<close>

text \<open>
  What a command takes from outside the database: the readings of \<open>datetime.now()\<close>, in
  the order the process makes them, and \<open>datetime.strptime(_, "%Y-%m-%d")\<close>, which is
  \<open>None\<close> where Python raises \<open>ValueError\<close>. A command returns the database after its
  commit, or the error it raised before writing anything.
\<close>

record env =
  clock :: "nat \<Rightarrow> timestamp"
  strptime :: "string \<Rightarrow> timestamp option"

fun if_given :: "string option \<Rightarrow> string option" where
  \<comment> \<open>Python's \<open>if option:\<close> on a \<open>str | None\<close>: an empty string counts as not given\<close>
  "if_given None = None"
| "if_given (Some s) = (if s = [] then None else Some s)"

definition next_rowid :: "record_row list \<Rightarrow> int" where
  \<comment> \<open>the id SQLite gives an inserted row: one more than the largest in the table\<close>
  "next_rowid rs = (if rs = [] then 1 else Max (set (map rec_id rs)) + 1)"

text \<open>
  The three steps that \<open>add\<close> runs before its INSERT, by the comments that head
  them in the source: \<open># Resolve account\<close>, \<open># Resolve category\<close>, \<open># Parse date\<close>.
  The last one is the same in \<open>transfer\<close>; it yields the record's date and the reading
  of the clock that follows.
\<close>

definition resolve_account :: "config_file \<Rightarrow> db \<Rightarrow> string option \<Rightarrow> error + (int \<times> string)" where
  "resolve_account file conn account =
     (case if_given account of
        Some a \<Rightarrow> (case find_account conn a of
                     Inl err \<Rightarrow> Inl err
                   | Inr None \<Rightarrow> Inl (AccountNotFound a)
                   | Inr (Some acc_result) \<Rightarrow> Inr acc_result)
      | None \<Rightarrow> get_default_account file conn)"

definition resolve_category :: "config_file \<Rightarrow> db \<Rightarrow> string option \<Rightarrow> error + int option" where
  "resolve_category file conn category =
     (case if_given category of
        Some c \<Rightarrow> (case find_category conn c of
                     Inl err \<Rightarrow> Inl err
                   | Inr None \<Rightarrow> Inl (CategoryNotFound c)
                   | Inr (Some cat_result) \<Rightarrow> Inr (Some (fst cat_result)))
      | None \<Rightarrow> (case get_default_category file conn of
                   Inl err \<Rightarrow> Inl err
                 | Inr None \<Rightarrow> Inr None
                 | Inr (Some default_cat) \<Rightarrow> Inr (Some (fst default_cat))))"

definition parse_date :: "env \<Rightarrow> string option \<Rightarrow> error + timestamp \<times> timestamp" where
  "parse_date e date_str =
     (case if_given date_str of
        Some s \<Rightarrow> (case strptime e s of
                     None \<Rightarrow> Inl InvalidDateFormat
                   | Some d \<Rightarrow> Inr (d, clock e 0))
      | None \<Rightarrow> Inr (clock e 0, clock e 1))"

definition add ::
  "config_file \<Rightarrow> env \<Rightarrow> db \<Rightarrow> real \<Rightarrow> string \<Rightarrow> string option \<Rightarrow> string option \<Rightarrow> bool
     \<Rightarrow> string option \<Rightarrow> error + db" where
  "add file e conn amt lbl category account income date_str =
     (if amt \<le> 0 then Inl AmountNotPositive
      else case resolve_account file conn account of
        Inl err \<Rightarrow> Inl err
      | Inr (account_id, account_name) \<Rightarrow>
         (case resolve_category file conn category of
            Inl err \<Rightarrow> Inl err
          | Inr category_id \<Rightarrow>
             (case parse_date e date_str of
                Inl err \<Rightarrow> Inl err
              | Inr (record_date, now) \<Rightarrow>
                 Inr (conn\<lparr>record_tbl := record_tbl conn @
                   [\<lparr>rec_id = next_rowid (record_tbl conn), createdAt = now, updatedAt = now,
                     label = lbl, amount = amt, date = record_date, accountId = account_id,
                     categoryId = category_id, isInProgress = False, isIncome = income,
                     isTransfer = False, transferToAccountId = None\<rparr>]\<rparr>))))"

definition transfer ::
  "env \<Rightarrow> db \<Rightarrow> real \<Rightarrow> string \<Rightarrow> string \<Rightarrow> string \<Rightarrow> string option \<Rightarrow> error + db" where
  "transfer e conn amt lbl from_account to_account date_str =
     (if amt \<le> 0 then Inl AmountNotPositive
      else case find_account conn from_account of
        Inl err \<Rightarrow> Inl err
      | Inr None \<Rightarrow> Inl (SourceAccountNotFound from_account)
      | Inr (Some (from_id, from_name)) \<Rightarrow>
         (case find_account conn to_account of
            Inl err \<Rightarrow> Inl err
          | Inr None \<Rightarrow> Inl (DestinationAccountNotFound to_account)
          | Inr (Some (to_id, to_name)) \<Rightarrow>
             if from_id = to_id then Inl SameAccount
             else case parse_date e date_str of
                Inl err \<Rightarrow> Inl err
              | Inr (record_date, now) \<Rightarrow>
                 Inr (conn\<lparr>record_tbl := record_tbl conn @
                   [\<lparr>rec_id = next_rowid (record_tbl conn), createdAt = now, updatedAt = now,
                     label = lbl, amount = amt, date = record_date, accountId = from_id,
                     categoryId = None, isInProgress = False, isIncome = False,
                     isTransfer = True, transferToAccountId = Some to_id\<rparr>]\<rparr>)))"





text \<open>
  \<open>undo\<close> and \<open>edit\<close> pick their record with \<open>ORDER BY r.createdAt DESC LIMIT 1\<close>
  (\<open>edit\<close> with \<open>OFFSET num - 1\<close>, where SQLite reads a negative offset as 0). SQL
  leaves the order among rows with equal \<open>createdAt\<close> open; the model sorts stably and
  reverses. \<open>answer\<close> is the user's reply to \<open>click.confirm\<close>, read only if the prompt
  is shown.
\<close>

definition by_createdAt_desc :: "record_row list \<Rightarrow> record_row list" where
  "by_createdAt_desc rs = rev (sort_key createdAt rs)"



definition update_record ::
  "real option \<Rightarrow> string option \<Rightarrow> int option \<Rightarrow> int option \<Rightarrow> timestamp option \<Rightarrow> bool option
     \<Rightarrow> timestamp \<Rightarrow> record_row \<Rightarrow> record_row" where
  \<comment> \<open>the \<open>SET\<close> list that \<open>edit\<close> assembles: one assignment per given field, then
      \<open>updatedAt = ?\<close>\<close>
  "update_record amt new_label cat acc new_date is_income now r =
     r\<lparr>amount := (case amt of Some a \<Rightarrow> a | None \<Rightarrow> amount r),
       label := (case new_label of Some l \<Rightarrow> l | None \<Rightarrow> label r),
       categoryId := (case cat of Some c \<Rightarrow> Some c | None \<Rightarrow> categoryId r),
       accountId := (case acc of Some a \<Rightarrow> a | None \<Rightarrow> accountId r),
       date := (case new_date of Some d \<Rightarrow> d | None \<Rightarrow> date r),
       isIncome := (case is_income of Some b \<Rightarrow> b | None \<Rightarrow> isIncome r),
       updatedAt := now\<rparr>"

definition edit ::
  "env \<Rightarrow> db \<Rightarrow> int \<Rightarrow> real option \<Rightarrow> string option \<Rightarrow> string option \<Rightarrow> string option
     \<Rightarrow> string option \<Rightarrow> bool option \<Rightarrow> error + db" where
  "edit e conn num amt new_label category account date_str is_income =
     (if amt = None \<and> new_label = None \<and> category = None \<and> account = None
         \<and> date_str = None \<and> is_income = None then Inl NoFieldToEdit
      else case drop (nat (num - 1)) (by_createdAt_desc (record_tbl conn)) of
        [] \<Rightarrow> Inr conn
      | r # _ \<Rightarrow>
         (if (case amt of Some a \<Rightarrow> a \<le> 0 | None \<Rightarrow> False) then Inl AmountNotPositive
          else case (case category of
                       None \<Rightarrow> Inr None
                     | Some c \<Rightarrow> (case find_category conn c of
                                    Inl err \<Rightarrow> Inl err
                                  | Inr None \<Rightarrow> Inl (CategoryNotFound c)
                                  | Inr (Some cat_result) \<Rightarrow> Inr (Some (fst cat_result)))) of
            Inl err \<Rightarrow> Inl err
          | Inr cat \<Rightarrow>
             (case (case account of
                      None \<Rightarrow> Inr None
                    | Some a \<Rightarrow> (case find_account conn a of
                                   Inl err \<Rightarrow> Inl err
                                 | Inr None \<Rightarrow> Inl (AccountNotFound a)
                                 | Inr (Some acc_result) \<Rightarrow> Inr (Some (fst acc_result)))) of
                Inl err \<Rightarrow> Inl err
              | Inr acc \<Rightarrow>
                 (case (case date_str of
                          None \<Rightarrow> Inr None
                        | Some s \<Rightarrow> (case strptime e s of
                                       None \<Rightarrow> Inl InvalidDateFormat
                                     | Some d \<Rightarrow> Inr (Some d))) of
                    Inl err \<Rightarrow> Inl err
                  | Inr new_date \<Rightarrow>
                     Inr (conn\<lparr>record_tbl := map (\<lambda>x. if rec_id x = rec_id r
                            then update_record amt new_label cat acc new_date is_income (clock e 0) x
                            else x) (record_tbl conn)\<rparr>)))))"


section \<open>The specification's formulas\<close>


text \<open>
  The resolver of the specification, section 4.1, as it is worded: a case-insensitive
  exact match on the name, returned if found; else a case-insensitive substring match,
  with no result, one result, or the failure that lists the names of all candidates.
  It runs over the rows that are not soft-deleted.
\<close>

definition resolver_spec ::
  "('row \<Rightarrow> int) \<Rightarrow> ('row \<Rightarrow> string) \<Rightarrow> ('row \<Rightarrow> bool) \<Rightarrow> (string \<Rightarrow> string list \<Rightarrow> error)
     \<Rightarrow> 'row list \<Rightarrow> string \<Rightarrow> error + (int \<times> string) option" where
  "resolver_spec ident name visible ambiguous rows search =
     (case filter (\<lambda>r. lower (name r) = lower search \<and> visible r) rows of
        r # _ \<Rightarrow> Inr (Some (ident r, name r))
      | [] \<Rightarrow>
         (case filter (\<lambda>r. sublist (lower search) (lower (name r)) \<and> visible r) rows of
            [] \<Rightarrow> Inr None
          | [r] \<Rightarrow> Inr (Some (ident r, name r))
          | results \<Rightarrow> Inl (ambiguous search (map name results))))"

definition wildcard_free :: "string \<Rightarrow> bool" where
  \<comment> \<open>the string holds neither of the two characters that \<open>LIKE\<close> reads as wildcards\<close>
  "wildcard_free s = (CHR ''%'' \<notin> set s \<and> CHR ''_'' \<notin> set s)"

text \<open>
  What \<open>edit\<close> may change in a record \<open>x\<close> to give \<open>y\<close>: the columns it never writes
  are equal, and so is every column whose option was not given.
\<close>

definition unspecified_kept ::
  "real option \<Rightarrow> string option \<Rightarrow> string option \<Rightarrow> string option \<Rightarrow> string option
     \<Rightarrow> bool option \<Rightarrow> record_row \<Rightarrow> record_row \<Rightarrow> bool" where
  "unspecified_kept amt new_label category account date_str is_income x y =
     (rec_id y = rec_id x \<and> createdAt y = createdAt x \<and> isInProgress y = isInProgress x
      \<and> isTransfer y = isTransfer x \<and> transferToAccountId y = transferToAccountId x
      \<and> (amt = None \<longrightarrow> amount y = amount x)
      \<and> (new_label = None \<longrightarrow> label y = label x)
      \<and> (category = None \<longrightarrow> categoryId y = categoryId x)
      \<and> (account = None \<longrightarrow> accountId y = accountId x)
      \<and> (date_str = None \<longrightarrow> date y = date x)
      \<and> (is_income = None \<longrightarrow> isIncome y = isIncome x))"


section \<open>Sample data\<close>

definition env_ex :: env where
  \<comment> \<open>a run that starts at time 1000 and is given no date but \<open>2025-01-03\<close>\<close>
  "env_ex = \<lparr>clock = (\<lambda>k. 1000 + k),
             strptime = (\<lambda>s. if s = ''2025-01-03'' then Some 500 else None)\<rparr>"



definition bank_db :: db where
  \<comment> \<open>four accounts, one of them soft-deleted, three categories and three records; the
      record created last (\<open>Lunch\<close>) has the earliest date\<close>
  "bank_db = \<lparr>account_tbl =
      [\<lparr>acc_id = 1, acc_name = ''Outside source'', beginningBalance = 0, acc_updatedAt = 0, acc_deletedAt = None\<rparr>,
       \<lparr>acc_id = 4, acc_name = ''Debit'', beginningBalance = 100, acc_updatedAt = 0, acc_deletedAt = None\<rparr>,
       \<lparr>acc_id = 2, acc_name = ''Old wallet'', beginningBalance = 0, acc_updatedAt = 0, acc_deletedAt = Some 7\<rparr>,
       \<lparr>acc_id = 3, acc_name = ''Savings'', beginningBalance = 0, acc_updatedAt = 0, acc_deletedAt = None\<rparr>],
     category_tbl =
      [\<lparr>cat_id = 1, cat_name = ''Food'', cat_deletedAt = None\<rparr>,
       \<lparr>cat_id = 2, cat_name = ''Food Delivery'', cat_deletedAt = None\<rparr>,
       \<lparr>cat_id = 3, cat_name = ''Fast food'', cat_deletedAt = None\<rparr>],
     record_tbl =
      [\<lparr>rec_id = 1, createdAt = 30, updatedAt = 30, label = ''Rent'', amount = 700,
        date = 90, accountId = 4, categoryId = None, isInProgress = False,
        isIncome = False, isTransfer = False, transferToAccountId = None\<rparr>,
       \<lparr>rec_id = 2, createdAt = 50, updatedAt = 50, label = ''Lunch'', amount = 12,
        date = 20, accountId = 4, categoryId = Some 1, isInProgress = False,
        isIncome = False, isTransfer = False, transferToAccountId = None\<rparr>,
       \<lparr>rec_id = 3, createdAt = 40, updatedAt = 40, label = ''To savings'', amount = 200,
        date = 60, accountId = 4, categoryId = None, isInProgress = False,
        isIncome = False, isTransfer = True, transferToAccountId = Some 3\<rparr>]\<rparr>"

definition checking_cfg :: config_file where
  \<comment> \<open>a saved file that names a default account that does not exist, and a key the
      tool does not know\<close>
  "checking_cfg = Saved [''default_account'' \<mapsto> JStr ''Checking'', ''theme'' \<mapsto> JStr ''dark'']"

section \<open>Balance calculator: the formula\<close>








section \<open>Balance set and balance adjust\<close>















section \<open>Config store\<close>

lemma get_config_Saved: "get_config (Saved saved) k = (case saved k of Some v \<Rightarrow> Some v | None \<Rightarrow> defaults k)"
  by (simp add: get_config_def map_add_def split: option.splits)

lemma defaults_simps:
  "defaults ''default_account'' = Some JNull" "defaults ''default_category'' = Some JNull"
  "defaults ''confirm_undo'' = Some (JBool True)"
  "defaults ''show_balance_after_add'' = Some (JBool False)"
  "defaults ''theme'' = None"
  by (simp_all add: defaults_def)

text \<open>
  C9: loading a saved mapping gives every key of the file the file's value and every
  other key its default, so keys the tool does not know are kept; \<open>save_config\<close> writes
  the loaded mapping as it is, unknown keys included, and loading that file again gives
  the same mapping.
\<close>

theorem get_config_merges_saved:
  "(\<forall>k v. saved k = Some v \<longrightarrow> get_config (Saved saved) k = Some v)
   \<and> (\<forall>k. saved k = None \<longrightarrow> get_config (Saved saved) k = defaults k)
   \<and> save_config (get_config (Saved saved)) = Saved (defaults ++ saved)
   \<and> get_config (save_config (get_config (Saved saved))) = get_config (Saved saved)"
proof -
  have "defaults ++ (defaults ++ saved) = defaults ++ saved"
    by (rule ext) (simp add: map_add_def split: option.splits)
  then show ?thesis
    by (simp add: get_config_Saved) (simp add: get_config_def save_config_def)
qed

theorem get_config_merges_saved_witness:
  "get_config checking_cfg ''theme'' = Some (JStr ''dark'')
   \<and> get_config checking_cfg ''default_account'' = Some (JStr ''Checking'')
   \<and> get_config checking_cfg ''confirm_undo'' = Some (JBool True)
   \<and> defaults ''theme'' = None"
  using get_config_merges_saved [of "[''default_account'' \<mapsto> JStr ''Checking'', ''theme'' \<mapsto> JStr ''dark'']"]
  by (simp add: checking_cfg_def defaults_simps)

section \<open>Default account\<close>










section \<open>Undo\<close>








section \<open>Transfer\<close>

text \<open>
  C5: when both search strings resolve to the same account id, \<open>transfer\<close> raises (the
  amount check comes first) and writes nothing; a transfer that succeeds appends one
  record, flagged as transfer, with no category and a destination other than its source.
\<close>

theorem transfer_distinct_accounts:
  "(find_account conn from_account = Inr (Some (i, n))
      \<and> find_account conn to_account = Inr (Some (i, n'))
      \<longrightarrow> transfer e conn amt lbl from_account to_account date_str
            = Inl (if amt \<le> 0 then AmountNotPositive else SameAccount))
   \<and> (\<forall>conn'. transfer e conn amt lbl from_account to_account date_str = Inr conn'
        \<longrightarrow> (\<exists>r to_id. conn' = conn\<lparr>record_tbl := record_tbl conn @ [r]\<rparr>
               \<and> isTransfer r \<and> categoryId r = None
               \<and> transferToAccountId r = Some to_id \<and> to_id \<noteq> accountId r))"
  by (auto simp: transfer_def split: sum.splits option.splits if_splits prod.splits)

lemma find_debit: "find_account bank_db ''debit'' = Inr (Some (4, ''Debit''))"
  "find_account bank_db ''DEBIT'' = Inr (Some (4, ''Debit''))"
  "find_account bank_db ''sav'' = Inr (Some (3, ''Savings''))"
  by (simp_all add: find_account_def bank_db_def lower_def lower_char_def)

theorem transfer_distinct_accounts_witness:
  "find_account bank_db ''debit'' = Inr (Some (4, ''Debit''))
   \<and> find_account bank_db ''DEBIT'' = Inr (Some (4, ''Debit''))
   \<and> transfer env_ex bank_db 500 ''Move'' ''debit'' ''DEBIT'' None = Inl SameAccount
   \<and> (\<exists>r. transfer env_ex bank_db 500 ''Move'' ''debit'' ''sav'' None
            = Inr (bank_db\<lparr>record_tbl := record_tbl bank_db @ [r]\<rparr>)
          \<and> isTransfer r \<and> categoryId r = None \<and> accountId r = 4
          \<and> transferToAccountId r = Some 3)"
proof -
  have "\<exists>conn'. transfer env_ex bank_db 500 ''Move'' ''debit'' ''sav'' None = Inr conn'
      \<and> accountId (last (record_tbl conn')) = 4
      \<and> transferToAccountId (last (record_tbl conn')) = Some 3"
    by (simp add: transfer_def find_debit parse_date_def)
  then obtain conn' where t: "transfer env_ex bank_db 500 ''Move'' ''debit'' ''sav'' None = Inr conn'"
    "accountId (last (record_tbl conn')) = 4"
    "transferToAccountId (last (record_tbl conn')) = Some 3"
    by blast
  from transfer_distinct_accounts [of bank_db "''debit''" 4 "''Debit''" "''sav''" "''Debit''" env_ex 500 "''Move''" None,
      THEN conjunct2, rule_format, OF t(1)]
  obtain r where r: "conn' = bank_db\<lparr>record_tbl := record_tbl bank_db @ [r]\<rparr>"
    "isTransfer r" "categoryId r = None"
    by blast
  from r(1) t(2,3) have "accountId r = 4" "transferToAccountId r = Some 3"
    by simp_all
  with r t(1) have ok: "\<exists>r. transfer env_ex bank_db 500 ''Move'' ''debit'' ''sav'' None
            = Inr (bank_db\<lparr>record_tbl := record_tbl bank_db @ [r]\<rparr>)
          \<and> isTransfer r \<and> categoryId r = None \<and> accountId r = 4
          \<and> transferToAccountId r = Some 3"
    by blast
  from transfer_distinct_accounts [of bank_db "''debit''" 4 "''Debit''" "''DEBIT''" "''Debit''" env_ex 500 "''Move''" None,
      THEN conjunct1]
  have same: "transfer env_ex bank_db 500 ''Move'' ''debit'' ''DEBIT'' None = Inl SameAccount"
    by (simp add: find_debit)
  from ok same find_debit show ?thesis by simp
qed


section \<open>Add\<close>

lemma next_rowid_fresh: "next_rowid rs \<notin> rec_id ` set rs"
proof (cases "rs = []")
  case True
  then show ?thesis by simp
next
  case False
  have "\<forall>x \<in> set rs. rec_id x \<le> Max (set (map rec_id rs))"
    by simp
  then have "\<forall>x \<in> set rs. rec_id x \<noteq> Max (set (map rec_id rs)) + 1"
    by fastforce
  with False show ?thesis by (auto simp: next_rowid_def)
qed

lemma lower_food: "lower ''food'' = ''food''" "lower ''Food'' = ''food''"
  "lower ''Food Delivery'' = ''food delivery''" "lower ''Fast food'' = ''fast food''"
  by (simp_all add: lower_def lower_char_def)

lemma resolve_debit: "resolve_account Absent bank_db (Some ''debit'') = Inr (4, ''Debit'')"
  by (simp add: resolve_account_def find_debit)

lemma resolve_food: "resolve_category Absent bank_db (Some ''food'') = Inr (Some 1)"
  by (simp add: resolve_category_def find_category_def bank_db_def lower_food)

text \<open>
  C6, as stated, fails: a positive amount and resolvable names are not enough, since
  \<open>add\<close> also raises on a date that is not in the format \<open>YYYY-MM-DD\<close>, and then
  inserts nothing.
\<close>

theorem add_bad_date_counterexample:
  "(0::real) < 50
   \<and> resolve_account Absent bank_db (Some ''debit'') = Inr (4, ''Debit'')
   \<and> resolve_category Absent bank_db (Some ''food'') = Inr (Some 1)
   \<and> add Absent env_ex bank_db 50 ''Coffee'' (Some ''food'') (Some ''debit'') False
        (Some ''03/01/2025'') = Inl InvalidDateFormat"
  by (simp add: resolve_debit resolve_food add_def parse_date_def env_ex_def)

text \<open>
  C6, amended: for a positive amount, an account and a category that resolve, and a date
  that is absent or parses, \<open>add\<close> appends exactly one record, with a fresh id, that
  amount, the resolved account id and the resolved category id; the category id is null
  when no category is given and none is configured; for an amount that is not positive
  \<open>add\<close> raises and inserts nothing.
\<close>

theorem add_inserts_one_record:
  "(0 < amt \<and> resolve_account file conn account = Inr (account_id, account_name)
      \<and> resolve_category file conn category = Inr category_id
      \<and> parse_date e date_str = Inr (record_date, now)
      \<longrightarrow> (\<exists>r. add file e conn amt lbl category account income date_str
                   = Inr (conn\<lparr>record_tbl := record_tbl conn @ [r]\<rparr>)
               \<and> amount r = amt \<and> accountId r = account_id \<and> categoryId r = category_id
               \<and> label r = lbl \<and> isIncome r = income \<and> \<not> isTransfer r
               \<and> date r = record_date \<and> rec_id r \<notin> rec_id ` set (record_tbl conn)))
   \<and> (if_given category = None \<and> get_config file ''default_category'' = Some JNull
        \<longrightarrow> resolve_category file conn category = Inr None)
   \<and> (amt \<le> 0 \<longrightarrow> add file e conn amt lbl category account income date_str
                      = Inl AmountNotPositive)"
proof (intro conjI impI)
  assume h: "0 < amt \<and> resolve_account file conn account = Inr (account_id, account_name)
      \<and> resolve_category file conn category = Inr category_id
      \<and> parse_date e date_str = Inr (record_date, now)"
  let ?r = "\<lparr>rec_id = next_rowid (record_tbl conn), createdAt = now, updatedAt = now,
     label = lbl, amount = amt, date = record_date, accountId = account_id,
     categoryId = category_id, isInProgress = False, isIncome = income,
     isTransfer = False, transferToAccountId = None\<rparr>"
  from h have "add file e conn amt lbl category account income date_str
      = Inr (conn\<lparr>record_tbl := record_tbl conn @ [?r]\<rparr>)"
    by (simp add: add_def)
  moreover have "rec_id ?r \<notin> rec_id ` set (record_tbl conn)"
    using next_rowid_fresh [of "record_tbl conn"] by simp
  ultimately show "\<exists>r. add file e conn amt lbl category account income date_str
                   = Inr (conn\<lparr>record_tbl := record_tbl conn @ [r]\<rparr>)
               \<and> amount r = amt \<and> accountId r = account_id \<and> categoryId r = category_id
               \<and> label r = lbl \<and> isIncome r = income \<and> \<not> isTransfer r
               \<and> date r = record_date \<and> rec_id r \<notin> rec_id ` set (record_tbl conn)"
    by (intro exI [of _ ?r]) simp
next
  assume "if_given category = None \<and> get_config file ''default_category'' = Some JNull"
  then show "resolve_category file conn category = Inr None"
    by (simp add: resolve_category_def get_default_category_def)
next
  assume "amt \<le> 0"
  then show "add file e conn amt lbl category account income date_str = Inl AmountNotPositive"
    by (simp add: add_def)
qed

lemma parse_ok: "parse_date env_ex (Some ''2025-01-03'') = Inr (500, 1000)"
  by (simp add: parse_date_def env_ex_def)

theorem add_inserts_one_record_witness:
  "(0::real) < 50
   \<and> resolve_account Absent bank_db (Some ''debit'') = Inr (4, ''Debit'')
   \<and> resolve_category Absent bank_db (Some ''food'') = Inr (Some 1)
   \<and> parse_date env_ex (Some ''2025-01-03'') = Inr (500, 1000)
   \<and> (\<exists>r. add Absent env_ex bank_db 50 ''Coffee'' (Some ''food'') (Some ''debit'') False
             (Some ''2025-01-03'') = Inr (bank_db\<lparr>record_tbl := record_tbl bank_db @ [r]\<rparr>)
          \<and> amount r = 50 \<and> accountId r = 4 \<and> categoryId r = Some 1)
   \<and> resolve_category Absent bank_db None = Inr None
   \<and> add Absent env_ex bank_db (- 5) ''Coffee'' None None False None = Inl AmountNotPositive"
proof -
  note inst = add_inserts_one_record [of 50 Absent bank_db "Some ''debit''" 4 "''Debit''" "Some ''food''" "Some 1"
      env_ex "Some ''2025-01-03''" 500 1000 "''Coffee''" False]
  from inst [THEN conjunct1] resolve_debit resolve_food parse_ok
  have one: "\<exists>r. add Absent env_ex bank_db 50 ''Coffee'' (Some ''food'') (Some ''debit'') False
             (Some ''2025-01-03'') = Inr (bank_db\<lparr>record_tbl := record_tbl bank_db @ [r]\<rparr>)
          \<and> amount r = 50 \<and> accountId r = 4 \<and> categoryId r = Some 1"
    by auto
  from add_inserts_one_record [of 50 Absent bank_db None 4 "''Debit''" None None env_ex None 500 1000 "''Coffee''" False,
      THEN conjunct2, THEN conjunct1]
  have two: "resolve_category Absent bank_db None = Inr None"
    by (simp add: get_config_def defaults_simps)
  from add_inserts_one_record [of "- 5" Absent bank_db None 4 "''Debit''" None None env_ex None 500 1000 "''Coffee''" False,
      THEN conjunct2, THEN conjunct2]
  have three: "add Absent env_ex bank_db (- 5) ''Coffee'' None None False None = Inl AmountNotPositive"
    by simp
  from one two three resolve_debit resolve_food parse_ok show ?thesis by simp
qed

section \<open>Edit\<close>

lemma edit_cases:
  assumes "edit e conn num amt new_label category account date_str is_income = Inr conn'"
  shows "conn' = conn \<or> (\<exists>i cat acc new_date.
           (category = None \<longrightarrow> cat = None) \<and> (account = None \<longrightarrow> acc = None)
           \<and> (date_str = None \<longrightarrow> new_date = None)
           \<and> conn' = conn\<lparr>record_tbl := map (\<lambda>x. if rec_id x = i
                 then update_record amt new_label cat acc new_date is_income (clock e 0) x
                 else x) (record_tbl conn)\<rparr>)"
  using assms unfolding edit_def
  by (auto split: if_splits list.splits option.splits sum.splits)

lemma update_record_kept:
  assumes "category = None \<longrightarrow> cat = None" "account = None \<longrightarrow> acc = None"
    "date_str = None \<longrightarrow> new_date = None"
  shows "unspecified_kept amt new_label category account date_str is_income x
           (update_record amt new_label cat acc new_date is_income t x)"
  using assms by (auto simp: unspecified_kept_def update_record_def)

lemma unspecified_kept_refl: "unspecified_kept amt new_label category account date_str is_income x x"
  by (simp add: unspecified_kept_def)

text \<open>
  C7, as stated, fails: \<open>edit\<close> always appends \<open>updatedAt = ?\<close> to its SET list, so
  the record's \<open>updatedAt\<close> changes though no option names it. Here only \<open>--label\<close> is
  given.
\<close>

theorem edit_touches_updatedAt_counterexample:
  "map label (record_tbl bank_db) = [''Rent'', ''Lunch'', ''To savings'']
   \<and> map updatedAt (record_tbl bank_db) = [30, 50, 40]
   \<and> map_sum id (map label \<circ> record_tbl)
        (edit env_ex bank_db 1 None (Some ''Brunch'') None None None None)
      = Inr [''Rent'', ''Brunch'', ''To savings'']
   \<and> map_sum id (map updatedAt \<circ> record_tbl)
        (edit env_ex bank_db 1 None (Some ''Brunch'') None None None None)
      = Inr [30, 1000, 40]"
  by (simp add: edit_def bank_db_def by_createdAt_desc_def update_record_def env_ex_def)

text \<open>
  C7, amended: after a successful \<open>edit\<close> the accounts and categories are as before,
  the records are as many, and each record keeps its id, \<open>createdAt\<close>, \<open>isInProgress\<close>,
  \<open>isTransfer\<close>, \<open>transferToAccountId\<close> and every field whose option was not given,
  \<open>updatedAt\<close> excepted; the records with another id than the edited one do not change
  at all.
\<close>

theorem edit_keeps_unspecified:
  assumes "edit e conn num amt new_label category account date_str is_income = Inr conn'"
  shows "account_tbl conn' = account_tbl conn \<and> category_tbl conn' = category_tbl conn
     \<and> length (record_tbl conn') = length (record_tbl conn)
     \<and> (\<forall>k < length (record_tbl conn).
           unspecified_kept amt new_label category account date_str is_income
             (record_tbl conn ! k) (record_tbl conn' ! k))
     \<and> (\<exists>i. \<forall>k < length (record_tbl conn).
           rec_id (record_tbl conn ! k) \<noteq> i \<longrightarrow> record_tbl conn' ! k = record_tbl conn ! k)"
proof -
  from edit_cases [OF assms] show ?thesis
  proof
    assume "conn' = conn"
    then show ?thesis by (simp add: unspecified_kept_refl)
  next
    assume "\<exists>i cat acc new_date.
           (category = None \<longrightarrow> cat = None) \<and> (account = None \<longrightarrow> acc = None)
           \<and> (date_str = None \<longrightarrow> new_date = None)
           \<and> conn' = conn\<lparr>record_tbl := map (\<lambda>x. if rec_id x = i
                 then update_record amt new_label cat acc new_date is_income (clock e 0) x
                 else x) (record_tbl conn)\<rparr>"
    then obtain i cat acc new_date where h: "category = None \<longrightarrow> cat = None"
      "account = None \<longrightarrow> acc = None" "date_str = None \<longrightarrow> new_date = None"
      and c: "conn' = conn\<lparr>record_tbl := map (\<lambda>x. if rec_id x = i
                 then update_record amt new_label cat acc new_date is_income (clock e 0) x
                 else x) (record_tbl conn)\<rparr>"
      by blast
    have kept: "\<forall>k < length (record_tbl conn).
           unspecified_kept amt new_label category account date_str is_income
             (record_tbl conn ! k) (record_tbl conn' ! k)"
      by (simp add: c update_record_kept [OF h] unspecified_kept_refl)
    have others: "\<forall>k < length (record_tbl conn).
           rec_id (record_tbl conn ! k) \<noteq> i \<longrightarrow> record_tbl conn' ! k = record_tbl conn ! k"
      by (simp add: c)
    from kept others show ?thesis
      by (simp add: c) blast
  qed
qed

theorem edit_keeps_unspecified_witness:
  "\<exists>conn'. edit env_ex bank_db 1 None (Some ''Brunch'') None None None None = Inr conn'
     \<and> account_tbl conn' = account_tbl bank_db
     \<and> length (record_tbl conn') = 3
     \<and> amount (record_tbl conn' ! 1) = 12
     \<and> date (record_tbl conn' ! 1) = 20
     \<and> categoryId (record_tbl conn' ! 1) = Some 1"
proof -
  have "\<exists>conn'. edit env_ex bank_db 1 None (Some ''Brunch'') None None None None = Inr conn'"
    by (simp add: edit_def bank_db_def by_createdAt_desc_def)
  then obtain conn' where
    run: "edit env_ex bank_db 1 None (Some ''Brunch'') None None None None = Inr conn'"
    by blast
  note frame = edit_keeps_unspecified [OF run]
  from frame have acc: "account_tbl conn' = account_tbl bank_db"
    and len: "length (record_tbl conn') = length (record_tbl bank_db)"
    by blast+
  from frame have "\<forall>k < length (record_tbl bank_db).
      unspecified_kept None (Some ''Brunch'') None None None None
        (record_tbl bank_db ! k) (record_tbl conn' ! k)"
    by blast
  moreover have "1 < length (record_tbl bank_db)"
    by (simp add: bank_db_def)
  ultimately have "unspecified_kept None (Some ''Brunch'') None None None None
        (record_tbl bank_db ! 1) (record_tbl conn' ! 1)"
    by blast
  then have "amount (record_tbl conn' ! 1) = 12" "date (record_tbl conn' ! 1) = 20"
    "categoryId (record_tbl conn' ! 1) = Some 1"
    by (simp_all add: unspecified_kept_def bank_db_def)
  with run acc len show ?thesis by (simp add: bank_db_def)
qed

section \<open>Record resolver: substring match\<close>

lemma lower_char_idem: "lower_char (lower_char c) = lower_char c"
  by (simp add: lower_char_def)

lemma lower_char_percent: "lower_char c = CHR ''%'' \<longleftrightarrow> c = CHR ''%''"
  by (simp add: lower_char_def)

lemma lower_char_underscore: "lower_char c = CHR ''_'' \<longleftrightarrow> c = CHR ''_''"
  by (simp add: lower_char_def)

lemma sql_like_percent: "sql_like ''%'' t"
  by (induction t) simp_all

lemma sql_like_literal:
  assumes "\<forall>c \<in> set p. c \<noteq> CHR ''%'' \<and> c \<noteq> CHR ''_'' \<and> lower_char c = c"
    and "\<forall>c \<in> set t. lower_char c = c"
  shows "sql_like (p @ ''%'') t \<longleftrightarrow> prefix p t"
  using assms
proof (induction p arbitrary: t)
  case Nil
  then show ?case by (simp add: sql_like_percent)
next
  case (Cons a p)
  show ?case
  proof (cases t)
    case Nil
    with Cons.prems show ?thesis by simp
  next
    case (Cons c cs)
    with Cons.prems Cons.IH [of cs] show ?thesis by auto
  qed
qed

lemma sql_like_leading_percent:
  "sql_like (CHR ''%'' # q) t \<longleftrightarrow> (\<exists>ss. suffix ss t \<and> sql_like q ss)"
proof (induction t)
  case Nil
  then show ?case by simp
next
  case (Cons c cs)
  then show ?case by (auto simp: suffix_Cons)
qed

lemma sql_like_substring:
  assumes "\<forall>c \<in> set p. c \<noteq> CHR ''%'' \<and> c \<noteq> CHR ''_'' \<and> lower_char c = c"
    and "\<forall>c \<in> set t. lower_char c = c"
  shows "sql_like (''%'' @ p @ ''%'') t \<longleftrightarrow> sublist p t"
proof -
  have "sql_like (''%'' @ p @ ''%'') t \<longleftrightarrow> (\<exists>ss. suffix ss t \<and> sql_like (p @ ''%'') ss)"
    using sql_like_leading_percent [of "p @ ''%''" t] by simp
  also have "\<dots> \<longleftrightarrow> (\<exists>ss. suffix ss t \<and> prefix p ss)"
  proof -
    have "sql_like (p @ ''%'') ss \<longleftrightarrow> prefix p ss" if "suffix ss t" for ss
    proof -
      from that have "set ss \<subseteq> set t" by (rule set_mono_suffix)
      with assms(2) have "\<forall>c \<in> set ss. lower_char c = c" by blast
      with assms(1) show ?thesis by (rule sql_like_literal)
    qed
    then show ?thesis by blast
  qed
  also have "\<dots> \<longleftrightarrow> sublist p t" by (simp add: sublist_altdef')
  finally show ?thesis .
qed

lemma like_pattern_substring:
  assumes "wildcard_free search"
  shows "sql_like (lower (''%'' @ search @ ''%'')) (lower n) \<longleftrightarrow> sublist (lower search) (lower n)"
proof -
  have p: "lower (''%'' @ search @ ''%'') = ''%'' @ lower search @ ''%''"
    by (simp add: lower_def lower_char_def)
  have "lower_char c \<noteq> CHR ''%'' \<and> lower_char c \<noteq> CHR ''_''" if "c \<in> set search" for c
  proof -
    from that assms have "c \<noteq> CHR ''%''" "c \<noteq> CHR ''_''"
      by (auto simp: wildcard_free_def)
    then show ?thesis by (simp add: lower_char_percent lower_char_underscore)
  qed
  then have "\<forall>c \<in> set (lower search). c \<noteq> CHR ''%'' \<and> c \<noteq> CHR ''_'' \<and> lower_char c = c"
    by (auto simp: lower_def lower_char_idem)
  moreover have "\<forall>c \<in> set (lower n). lower_char c = c"
    by (auto simp: lower_def lower_char_idem)
  ultimately show ?thesis unfolding p by (rule sql_like_substring)
qed

text \<open>
  For a search string without \<open>%\<close> and \<open>_\<close> both resolvers are the resolver of the
  specification.
\<close>

lemma find_account_wildcard_free:
  assumes "wildcard_free search"
  shows "find_account conn search =
     resolver_spec acc_id acc_name (\<lambda>a. acc_deletedAt a = None) MultipleAccounts
       (account_tbl conn) search"
  unfolding find_account_def resolver_spec_def like_pattern_substring [OF assms] ..

lemma find_category_wildcard_free:
  assumes "wildcard_free search"
  shows "find_category conn search =
     resolver_spec cat_id cat_name (\<lambda>c. cat_deletedAt c = None) MultipleCategories
       (category_tbl conn) search"
  unfolding find_category_def resolver_spec_def like_pattern_substring [OF assms] ..

lemma lower_names: "lower ''d_bit'' = ''d_bit''" "lower ''%d_bit%'' = ''%d_bit%''"
  "lower ''Outside source'' = ''outside source''" "lower ''Debit'' = ''debit''"
  "lower ''Savings'' = ''savings''" "lower ''Old wallet'' = ''old wallet''"
  by (simp_all add: lower_def lower_char_def)

text \<open>
  C3 at a search string with a wildcard: \<open>d_bit\<close> is not a substring of any account
  name, so the resolver of the claim finds nothing, but \<open>LIKE '%d_bit%'\<close> matches
  \<open>Debit\<close> and \<open>find_account\<close> returns that account.
\<close>

theorem find_account_wildcard_divergence:
  "find_account bank_db ''d_bit'' = Inr (Some (4, ''Debit''))
   \<and> resolver_spec acc_id acc_name (\<lambda>a. acc_deletedAt a = None) MultipleAccounts
       (account_tbl bank_db) ''d_bit'' = Inr None"
proof -
  have "find_account bank_db ''d_bit'' = Inr (Some (4, ''Debit''))"
    by (simp add: find_account_def bank_db_def lower_names lower_char_def)
  moreover have "resolver_spec acc_id acc_name (\<lambda>a. acc_deletedAt a = None) MultipleAccounts
       (account_tbl bank_db) ''d_bit'' = Inr None"
    by (simp add: resolver_spec_def bank_db_def lower_names sublist_code prefix_code)
  ultimately show ?thesis by simp
qed


end
